theory Spec2Isabelle
  imports Complex_Main "HOL-Library.Log_Nat"
begin

section \<open>Forward-Euler integration of the logistic equation\<close>

text \<open>
  The executable content of the notebook \<^verbatim>\<open>Dynamical Systems and ODEs.ipynb\<close> is a
  parameter block and one integration cell:
  \<^verbatim>\<open>
  M = 100; k = .01; dt = 0.1; Tmax = 10; y0 = 2.0

  times = np.arange(0, Tmax, dt)
  y = np.empty_like(times)
  y[0] = y0
  for i in range(len(times) - 1):
      y[i+1] = y[i] + dt * k * y[i] * (M - y[i])
  \<close>
  What the embedding writes out: the Python type of each parameter (int or float), the
  element type that \<open>np.arange\<close> infers from them and \<open>np.empty_like\<close> inherits, the
  conversion that an assignment into an integer array makes, the double-precision
  division and products by which \<open>np.arange\<close> finds the length and the points of the grid,
  the content of the uninitialised placeholder, the indexed reads and writes, and the
  exceptions. What it idealises: the right-hand side of the update is evaluated in exact
  real arithmetic, and numbers beyond the range of a double or of an \<open>int64\<close> do not occur.
\<close>

subsection \<open>Numbers\<close>

text \<open>A Python number is an int or a float; a float carries the value of a double.\<close>

datatype pynum = PyInt int | PyFloat real

fun val :: "pynum \<Rightarrow> real" where
  "val (PyInt i) = of_int i"
| "val (PyFloat x) = x"

fun is_int :: "pynum \<Rightarrow> bool" where
  "is_int (PyInt i) = True"
| "is_int (PyFloat x) = False"

text \<open>
  Rounding of a real to the nearest double, ties to even: a positive \<open>x\<close> with
  \<open>2^e \<le> x < 2^(e+1)\<close> is rounded to a multiple of \<open>2^(e-52)\<close>. The exponent \<open>e\<close> is found
  from the bit length of the integer part of \<open>x\<close>, or of \<open>1 / x\<close> for \<open>x < 1\<close>.
\<close>

definition expo :: "real \<Rightarrow> int" where
  "expo x = (if 1 \<le> x then bitlen \<lfloor>x\<rfloor> - 1 else - bitlen (\<lceil>1 / x\<rceil> - 1))"

definition rne :: "real \<Rightarrow> int" where
  "rne r =
     (if r - of_int \<lfloor>r\<rfloor> < 1 / 2 then \<lfloor>r\<rfloor>
      else if 1 / 2 < r - of_int \<lfloor>r\<rfloor> then \<lfloor>r\<rfloor> + 1
      else if even \<lfloor>r\<rfloor> then \<lfloor>r\<rfloor> else \<lfloor>r\<rfloor> + 1)"

definition ulp :: "real \<Rightarrow> real" where
  "ulp x = 2 powi (expo x - 52)"

definition round_pos :: "real \<Rightarrow> real" where
  "round_pos x = ulp x * of_int (rne (x / ulp x))"

definition to_double :: "real \<Rightarrow> real" where
  "to_double x = (if x = 0 then 0 else if 0 < x then round_pos x else - round_pos (- x))"

text \<open>\<open>float(a)\<close>: an int is rounded to a double, a float is one.\<close>

fun to_float :: "pynum \<Rightarrow> real" where
  "to_float (PyInt i) = to_double (of_int i)"
| "to_float (PyFloat x) = x"

text \<open>
  \<open>a / b\<close>: the quotient of two ints is the exact quotient rounded once; otherwise both
  operands are floats first. A zero divisor raises.
\<close>

fun quot :: "pynum \<Rightarrow> pynum \<Rightarrow> real" where
  "quot (PyInt i) (PyInt j) = to_double (of_int i / of_int j)"
| "quot a b = to_double (to_float a / to_float b)"

datatype error = ZeroDivisionError | IndexError

definition truediv :: "pynum \<Rightarrow> pynum \<Rightarrow> error + real" where
  "truediv a b = (if val b = 0 then Inl ZeroDivisionError else Inr (quot a b))"

subsection \<open>Arrays\<close>

text \<open>
  An array has an element type and its cells, and the model adds a log of the indices
  assigned since its creation. The log is bookkeeping: no operation reads it. A cell of
  an \<open>int64\<close> array holds a whole number.
\<close>

datatype scalar_type = Int64 | Float64

record ndarray =
  dtype :: scalar_type
  data :: "real list"
  written :: "nat list"

text \<open>
  Storing a value converts it to the element type: into an \<open>int64\<close> array the fraction
  is cut off, toward zero.
\<close>

definition trunc :: "real \<Rightarrow> int" where
  "trunc v = (if 0 \<le> v then \<lfloor>v\<rfloor> else \<lceil>v\<rceil>)"

fun cast :: "scalar_type \<Rightarrow> real \<Rightarrow> real" where
  "cast Float64 v = v"
| "cast Int64 v = of_int (trunc v)"

text \<open>
  \<open>np.arange(0, stop, step)\<close>. The element type is \<open>int64\<close> when \<open>stop\<close> and \<open>step\<close> are
  ints (the start \<open>0\<close> is one), \<open>float64\<close> otherwise. The length is the ceiling of the
  quotient \<open>(stop - 0) / step\<close> as Python computes it, and a non-positive length gives the
  empty array. An integer grid holds \<open>0 + i * step\<close>. A float grid holds \<open>0\<close>, then
  \<open>float(0 + step)\<close>, then for \<open>i \<ge> 2\<close> the double product \<open>i * delta\<close> with
  \<open>delta = float(step) - 0\<close>, to which the start \<open>0.0\<close> is added.
\<close>

definition result_type :: "pynum \<Rightarrow> pynum \<Rightarrow> scalar_type" where
  "result_type stop step = (if is_int stop \<and> is_int step then Int64 else Float64)"

definition arange_item :: "pynum \<Rightarrow> pynum \<Rightarrow> nat \<Rightarrow> real" where
  "arange_item stop step i =
     (if is_int stop \<and> is_int step then 0 + real i * val step
      else if i = 0 then 0
      else if i = 1 then to_float step
      else 0 + to_double (real i * to_float step))"

definition arange :: "pynum \<Rightarrow> pynum \<Rightarrow> error + ndarray" where
  "arange stop step =
     (case truediv stop step of
        Inl e \<Rightarrow> Inl e
      | Inr q \<Rightarrow>
          Inr \<lparr>dtype = result_type stop step,
               data = map (arange_item stop step) [0..<nat \<lceil>q\<rceil>],
               written = []\<rparr>)"

text \<open>
  \<open>np.empty_like(a)\<close>: an array of the shape and element type of \<open>a\<close> whose cells hold
  whatever the allocated memory held. That content is the parameter \<open>junk\<close>.
\<close>

definition empty_like :: "(nat \<Rightarrow> real) \<Rightarrow> ndarray \<Rightarrow> ndarray" where
  "empty_like junk a =
     \<lparr>dtype = dtype a, data = map junk [0..<length (data a)], written = []\<rparr>"

text \<open>\<open>a[i]\<close> and \<open>a[i] = v\<close> for a non-negative index: out of range raises.\<close>

definition getitem :: "ndarray \<Rightarrow> nat \<Rightarrow> error + real" where
  "getitem a i = (if i < length (data a) then Inr (data a ! i) else Inl IndexError)"

definition setitem :: "ndarray \<Rightarrow> nat \<Rightarrow> real \<Rightarrow> error + ndarray" where
  "setitem a i v =
     (if i < length (data a)
      then Inr \<lparr>dtype = dtype a, data = (data a)[i := cast (dtype a) v],
                written = written a @ [i]\<rparr>
      else Inl IndexError)"

subsection \<open>The integration cell\<close>

record params =
  M :: pynum
  k :: pynum
  dt :: pynum
  Tmax :: pynum
  y0 :: pynum

text \<open>The body of the loop: \<open>y[i+1] = y[i] + dt * k * y[i] * (M - y[i])\<close>.\<close>

definition euler_step :: "params \<Rightarrow> ndarray \<Rightarrow> nat \<Rightarrow> error + ndarray" where
  "euler_step p y i =
     (case getitem y i of
        Inl e \<Rightarrow> Inl e
      | Inr yi \<Rightarrow>
          setitem y (i + 1) (yi + val (dt p) * val (k p) * yi * (val (M p) - yi)))"

text \<open>\<open>for i in range(...)\<close>: the body at each index in order, stopping at an exception.\<close>

fun euler_loop :: "params \<Rightarrow> nat list \<Rightarrow> ndarray \<Rightarrow> error + ndarray" where
  "euler_loop p [] y = Inr y"
| "euler_loop p (i # is) y =
     (case euler_step p y i of Inl e \<Rightarrow> Inl e | Inr y' \<Rightarrow> euler_loop p is y')"

text \<open>The whole cell; it leaves the time grid (\<open>times\<close> in the source, \<open>grid\<close> here) and
  the trajectory \<open>y\<close>.\<close>

definition integrate :: "params \<Rightarrow> (nat \<Rightarrow> real) \<Rightarrow> error + (ndarray \<times> ndarray)" where
  "integrate p junk =
     (case arange (Tmax p) (dt p) of
        Inl e \<Rightarrow> Inl e
      | Inr grid \<Rightarrow>
          (case setitem (empty_like junk grid) 0 (val (y0 p)) of
             Inl e \<Rightarrow> Inl e
           | Inr y \<Rightarrow>
               (case euler_loop p [0..<length (data grid) - 1] y of
                  Inl e \<Rightarrow> Inl e
                | Inr y' \<Rightarrow> Inr (grid, y'))))"

subsection \<open>Configurations\<close>

text \<open>
  The parameter block of the notebook. The literals \<open>.01\<close> and \<open>0.1\<close> denote the doubles
  nearest to them.
\<close>

definition notebook_params :: params where
  "notebook_params =
     \<lparr>M = PyInt 100, k = PyFloat (to_double (1 / 100)), dt = PyFloat (to_double (1 / 10)),
      Tmax = PyInt 10, y0 = PyFloat 2\<rparr>"

text \<open>A population that starts above the carrying capacity.\<close>

definition above_capacity_params :: params where
  "above_capacity_params =
     \<lparr>M = PyInt 100, k = PyFloat (to_double (1 / 100)), dt = PyFloat (to_double (1 / 10)),
      Tmax = PyInt 5, y0 = PyInt 150\<rparr>"

text \<open>A short run of three grid points (\<open>dt = 0.125\<close>, \<open>Tmax = 0.375\<close>, \<open>k = 0.0078125\<close>),
  and memory that held zeros.\<close>

definition short_params :: params where
  "short_params =
     \<lparr>M = PyInt 100, k = PyFloat (1 / 128), dt = PyFloat (1 / 8), Tmax = PyFloat (3 / 8),
      y0 = PyFloat 2\<rparr>"

definition zero_mem :: "nat \<Rightarrow> real" where
  "zero_mem i = 0"




text \<open>
  Parameter blocks in which \<open>dt\<close> and \<open>Tmax\<close> are ints (\<open>dt = 1\<close>, \<open>Tmax = 3\<close>, with
  \<open>k = 0.5\<close>): \<open>M = 4\<close> and \<open>y0 = 1.0\<close>; \<open>M = 4\<close> and \<open>y0 = 2.5\<close>; \<open>M = 2.5\<close> and \<open>y0 = 2.5\<close>.
\<close>

definition truncating_params :: params where
  "truncating_params =
     \<lparr>M = PyInt 4, k = PyFloat (1 / 2), dt = PyInt 1, Tmax = PyInt 3, y0 = PyFloat 1\<rparr>"

definition fractional_start_params :: params where
  "fractional_start_params =
     \<lparr>M = PyInt 4, k = PyFloat (1 / 2), dt = PyInt 1, Tmax = PyInt 3, y0 = PyFloat (5 / 2)\<rparr>"

definition fractional_capacity_params :: params where
  "fractional_capacity_params =
     \<lparr>M = PyFloat (5 / 2), k = PyFloat (1 / 2), dt = PyInt 1, Tmax = PyInt 3,
      y0 = PyFloat (5 / 2)\<rparr>"

text \<open>Populations that start at the two equilibria, on a float grid.\<close>

definition at_zero_params :: params where
  "at_zero_params =
     \<lparr>M = PyInt 100, k = PyFloat (1 / 128), dt = PyFloat (1 / 8), Tmax = PyInt 1,
      y0 = PyFloat 0\<rparr>"

definition at_capacity_params :: params where
  "at_capacity_params =
     \<lparr>M = PyInt 100, k = PyFloat (1 / 128), dt = PyFloat (1 / 8), Tmax = PyFloat (3 / 8),
      y0 = PyFloat 100\<rparr>"




definition zero_horizon_params :: params where
  "zero_horizon_params =
     \<lparr>M = PyInt 100, k = PyFloat (to_double (1 / 100)), dt = PyFloat (to_double (1 / 10)),
      Tmax = PyInt 0, y0 = PyFloat 2\<rparr>"

definition negative_horizon_params :: params where
  "negative_horizon_params =
     \<lparr>M = PyInt 100, k = PyFloat (to_double (1 / 100)), dt = PyFloat (to_double (1 / 10)),
      Tmax = PyInt (- 1), y0 = PyFloat 2\<rparr>"

subsection \<open>What the loop computes\<close>

text \<open>
  The right-hand side of the update, the conversion to the element type of the grid that
  each assignment to \<open>y\<close> makes, and the \<open>n\<close>-th stored value from the initial one.
\<close>

definition euler_update :: "params \<Rightarrow> real \<Rightarrow> real" where
  "euler_update p v = v + val (dt p) * val (k p) * v * (val (M p) - v)"

definition stored :: "params \<Rightarrow> real \<Rightarrow> real" where
  "stored p v = cast (result_type (Tmax p) (dt p)) v"

definition iterate :: "params \<Rightarrow> nat \<Rightarrow> real" where
  "iterate p n = ((\<lambda>v. stored p (euler_update p v)) ^^ n) (stored p (val (y0 p)))"

text \<open>The number of grid points.\<close>

definition grid_len :: "params \<Rightarrow> nat" where
  "grid_len p = nat \<lceil>quot (Tmax p) (dt p)\<rceil>"

text \<open>The grid that \<open>np.arange\<close> returns when it does not raise.\<close>

definition grid_of :: "params \<Rightarrow> ndarray" where
  "grid_of p =
     \<lparr>dtype = result_type (Tmax p) (dt p),
      data = map (arange_item (Tmax p) (dt p)) [0..<grid_len p], written = []\<rparr>"

subsection \<open>Rounding keeps the sign\<close>

lemma expo_lower:
  assumes "0 < x"
  shows "2 powi (expo x) \<le> x"
proof (cases "1 \<le> x")
  case True
  then have m: "0 < \<lfloor>x\<rfloor>"
    by linarith
  from bitlen_bounds [OF m] have b: "2 ^ nat (bitlen \<lfloor>x\<rfloor> - 1) \<le> \<lfloor>x\<rfloor>"
    by simp
  from m have "1 \<le> bitlen \<lfloor>x\<rfloor>"
    by (simp add: bitlen_alt_def)
  then have "2 powi (bitlen \<lfloor>x\<rfloor> - 1) = (2::real) ^ nat (bitlen \<lfloor>x\<rfloor> - 1)"
    by (simp add: power_int_def)
  also have "\<dots> = real_of_int (2 ^ nat (bitlen \<lfloor>x\<rfloor> - 1))"
    by simp
  also from b have "\<dots> \<le> real_of_int \<lfloor>x\<rfloor>"
    by (simp only: of_int_le_iff)
  also have "\<dots> \<le> x"
    by simp
  finally show ?thesis
    using True by (simp add: expo_def)
next
  case False
  with assms have "1 < 1 / x"
    by simp
  then have n: "0 < \<lceil>1 / x\<rceil> - 1"
    by linarith
  let ?j = "bitlen (\<lceil>1 / x\<rceil> - 1)"
  from bitlen_bounds [OF n] have "\<lceil>1 / x\<rceil> - 1 < 2 ^ nat ?j"
    by simp
  then have "\<lceil>1 / x\<rceil> \<le> 2 ^ nat ?j"
    by simp
  then have "real_of_int \<lceil>1 / x\<rceil> \<le> real_of_int (2 ^ nat ?j)"
    by (simp only: of_int_le_iff)
  then have "1 / x \<le> 2 ^ nat ?j"
    by (simp add: ceiling_le_iff)
  with assms have "1 / 2 ^ nat ?j \<le> x"
    by (simp add: field_simps)
  moreover have "0 \<le> ?j"
    by (rule bitlen_nonneg)
  then have "2 powi (- ?j) = 1 / (2::real) ^ nat ?j"
    by (simp add: power_int_def field_simps)
  ultimately show ?thesis
    using False by (simp add: expo_def)
qed

lemma rne_pos:
  assumes "1 \<le> r"
  shows "0 < rne r"
proof -
  from assms have "1 \<le> \<lfloor>r\<rfloor>"
    by linarith
  then show ?thesis
    by (simp add: rne_def)
qed

lemma round_pos_pos:
  assumes "0 < x"
  shows "0 < round_pos x"
proof -
  have u: "0 < ulp x"
    by (simp add: ulp_def)
  have "ulp x = 2 powi (expo x) / 2 ^ 52"
    by (simp add: ulp_def power_int_diff)
  also have "\<dots> \<le> 2 powi (expo x)"
    by (simp add: field_simps)
  also from assms have "\<dots> \<le> x"
    by (rule expo_lower)
  finally have "1 \<le> x / ulp x"
    using u by simp
  then have "0 < rne (x / ulp x)"
    by (rule rne_pos)
  with u show ?thesis
    by (simp add: round_pos_def)
qed

lemma to_double_pos_iff: "(0 < to_double x) = (0 < x)"
  using round_pos_pos [of x] round_pos_pos [of "- x"]
  by (auto simp: to_double_def)

lemma to_double_zero_iff: "(to_double x = 0) = (x = 0)"
  using round_pos_pos [of x] round_pos_pos [of "- x"]
  by (auto simp: to_double_def)

lemma to_double_neg_iff: "(to_double x < 0) = (x < 0)"
  using to_double_pos_iff [of x] to_double_zero_iff [of x] by auto

lemma to_float_pos_iff: "(0 < to_float a) = (0 < val a)"
  by (cases a) (simp_all add: to_double_pos_iff)

lemma to_float_neg_iff: "(to_float a < 0) = (val a < 0)"
  by (cases a) (simp_all add: to_double_neg_iff)

text \<open>The quotient that Python computes has the sign of the exact one.\<close>

lemma quot_pos_iff: "(0 < quot a b) = (0 < val a / val b)"
proof (cases "is_int a \<and> is_int b")
  case True
  then obtain i j where "a = PyInt i" and "b = PyInt j"
    by (cases a; cases b) simp_all
  then show ?thesis
    by (simp add: to_double_pos_iff)
next
  case False
  then have "quot a b = to_double (to_float a / to_float b)"
    by (cases a; cases b) simp_all
  then show ?thesis
    by (simp add: to_double_pos_iff zero_less_divide_iff to_float_pos_iff to_float_neg_iff)
qed

lemma grid_len_pos_iff: "(0 < grid_len p) = (0 < val (Tmax p) / val (dt p))"
proof -
  have "(0 < grid_len p) = (0 < \<lceil>quot (Tmax p) (dt p)\<rceil>)"
    by (simp add: grid_len_def)
  also have "\<dots> = (0 < quot (Tmax p) (dt p))"
    by linarith
  finally show ?thesis
    by (simp only: quot_pos_iff)
qed

subsection \<open>Rounding is monotone, and exact on small whole numbers\<close>















subsection \<open>The loop in closed form\<close>

lemma iterate_0: "iterate p 0 = stored p (val (y0 p))"
  by (simp add: iterate_def)

lemma iterate_Suc: "iterate p (Suc n) = stored p (euler_update p (iterate p n))"
  by (simp add: iterate_def)

lemma euler_loop_append:
  "euler_loop p (xs @ ys) y =
     (case euler_loop p xs y of Inl e \<Rightarrow> Inl e | Inr y' \<Rightarrow> euler_loop p ys y')"
  by (induction xs arbitrary: y) (auto split: sum.splits)

lemma euler_step_at:
  assumes "length xs = Suc j"
  shows "euler_step p \<lparr>dtype = t, data = xs @ u # rest, written = w\<rparr> j =
         Inr \<lparr>dtype = t, data = xs @ cast t (euler_update p (xs ! j)) # rest,
              written = w @ [Suc j]\<rparr>"
proof -
  have rd: "(xs @ u # rest) ! j = xs ! j"
    using assms by (simp add: nth_append)
  have wr: "(xs @ u # rest)[Suc j := v] = xs @ v # rest" for v
    using assms by (metis list_update_length)
  show ?thesis
    using assms by (simp add: euler_step_def getitem_def setitem_def rd wr euler_update_def)
qed

text \<open>
  The loop invariant, as a closed form: after the iterations \<open>0, ..., j - 1\<close> the cells
  \<open>0..j\<close> hold the stored iterates, the cells after them still hold the placeholder's
  content, and the log holds \<open>0..j\<close> in order.
\<close>

lemma euler_loop_run:
  assumes "j < n"
  shows "euler_loop p [0..<j]
           \<lparr>dtype = result_type (Tmax p) (dt p),
            data = (map junk [0..<n])[0 := stored p (val (y0 p))], written = [0]\<rparr> =
         Inr \<lparr>dtype = result_type (Tmax p) (dt p),
              data = map (iterate p) [0..<Suc j] @ map junk [Suc j..<n],
              written = [0..<Suc j]\<rparr>"
  using assms
proof (induction j)
  case 0
  then have "[0..<n] = 0 # [Suc 0..<n]"
    by (simp add: upt_conv_Cons)
  then show ?case
    by (simp add: iterate_0)
next
  case (Suc j)
  let ?t = "result_type (Tmax p) (dt p)"
  from Suc have run: "euler_loop p [0..<j]
           \<lparr>dtype = ?t, data = (map junk [0..<n])[0 := stored p (val (y0 p))], written = [0]\<rparr> =
         Inr \<lparr>dtype = ?t, data = map (iterate p) [0..<Suc j] @ map junk [Suc j..<n],
              written = [0..<Suc j]\<rparr>"
    by simp
  from Suc.prems have rest: "map junk [Suc j..<n] = junk (Suc j) # map junk [Suc (Suc j)..<n]"
    by (simp add: upt_conv_Cons)
  have len: "length (map (iterate p) [0..<Suc j]) = Suc j"
    by simp
  have last: "map (iterate p) [0..<Suc j] ! j = iterate p j"
    by (metis add_0 lessI nth_map_upt minus_nat.diff_0)
  have grow: "map (iterate p) [0..<Suc (Suc j)] =
               map (iterate p) [0..<Suc j] @ [cast ?t (euler_update p (iterate p j))]"
    by (simp add: iterate_Suc stored_def)
  have step: "euler_step p \<lparr>dtype = ?t, data = map (iterate p) [0..<Suc j] @ map junk [Suc j..<n],
              written = [0..<Suc j]\<rparr> j =
         Inr \<lparr>dtype = ?t,
              data = map (iterate p) [0..<Suc (Suc j)] @ map junk [Suc (Suc j)..<n],
              written = [0..<Suc (Suc j)]\<rparr>"
    unfolding rest euler_step_at [OF len] last grow by simp
  have "euler_loop p [0..<Suc j] y =
          (case euler_loop p [0..<j] y of Inl e \<Rightarrow> Inl e | Inr y' \<Rightarrow> euler_loop p [j] y')" for y
    using euler_loop_append [of p "[0..<j]" "[j]" y] by simp
  then show ?case
    by (simp only: run sum.case euler_loop.simps step)
qed

text \<open>The grid, and the first assignment \<open>y[0] = y0\<close> on the fresh placeholder.\<close>

lemma arange_eq:
  "arange (Tmax p) (dt p) =
     (if val (dt p) = 0 then Inl ZeroDivisionError else Inr (grid_of p))"
  by (simp add: arange_def truediv_def grid_len_def grid_of_def)

lemma setitem_empty_like:
  "setitem (empty_like junk (grid_of p)) 0 v =
     (if grid_len p = 0 then Inl IndexError
      else Inr \<lparr>dtype = result_type (Tmax p) (dt p),
                data = (map junk [0..<grid_len p])[0 := stored p v], written = [0]\<rparr>)"
  by (simp add: setitem_def empty_like_def grid_of_def stored_def)

text \<open>The cell in closed form: which exception it raises, or the grid and trajectory.\<close>

lemma integrate_eq:
  "integrate p junk =
     (if val (dt p) = 0 then Inl ZeroDivisionError
      else if grid_len p = 0 then Inl IndexError
      else Inr (grid_of p,
                \<lparr>dtype = result_type (Tmax p) (dt p),
                 data = map (iterate p) [0..<grid_len p], written = [0..<grid_len p]\<rparr>))"
proof (cases "val (dt p) = 0")
  case True
  then show ?thesis
    by (simp add: integrate_def arange_eq)
next
  case False
  have len: "length (data (grid_of p)) = grid_len p"
    by (simp add: grid_of_def)
  show ?thesis
  proof (cases "grid_len p")
    case 0
    with False show ?thesis
      by (simp add: integrate_def arange_eq setitem_empty_like)
  next
    case (Suc m)
    have "m < Suc m"
      by simp
    from euler_loop_run [OF this, of p junk] False Suc show ?thesis
      by (simp add: integrate_def arange_eq setitem_empty_like len del: upt_Suc)
  qed
qed

lemma integrate_InrD:
  assumes "integrate p junk = Inr (grid, y)"
  shows "val (dt p) \<noteq> 0" and "0 < grid_len p"
    and "grid = grid_of p"
    and "dtype y = result_type (Tmax p) (dt p)"
    and "data y = map (iterate p) [0..<grid_len p]"
    and "written y = [0..<grid_len p]"
  using assms by (auto simp: integrate_eq split: if_splits)

subsection \<open>Evaluation\<close>

text \<open>The doubles that the literals of the parameter blocks denote.\<close>

lemmas double_eval = to_double_def round_pos_def ulp_def expo_def rne_def compute_bitlen

lemma double_tenth: "to_double (1 / 10) = 3602879701896397 / 36028797018963968"
  by (simp add: double_eval)

lemma double_hundredth: "to_double (1 / 100) = 5764607523034235 / 576460752303423488"
  by (simp add: double_eval)

lemma double_fifth: "to_double (1 / 5) = 3602879701896397 / 18014398509481984"
  by (simp add: double_eval)

lemma double_three_tenths: "to_double (3 / 10) = 5404319552844595 / 18014398509481984"
  by (simp add: double_eval)

lemma double_twentyone_tenths: "to_double (21 / 10) = 4728779608739021 / 2251799813685248"
  by (simp add: double_eval)

lemma double_eleven_tenths: "to_double (11 / 10) = 2476979795053773 / 2251799813685248"
  by (simp add: double_eval)

lemmas literals = double_tenth double_hundredth double_fifth double_three_tenths
  double_twentyone_tenths double_eleven_tenths

lemmas run_defs = integrate_def arange_def truediv_def result_type_def arange_item_def
  empty_like_def setitem_def euler_step_def getitem_def zero_mem_def trunc_def upt_conv_Cons

text \<open>The short run, evaluated.\<close>

lemma short_run:
  "integrate short_params zero_mem =
     Inr (\<lparr>dtype = Float64, data = [0, 1 / 8, 1 / 4], written = []\<rparr>,
          \<lparr>dtype = Float64, data = [2, 561 / 256, 161109663 / 67108864],
           written = [0, 1, 2]\<rparr>)"
  by (simp add: short_params_def run_defs double_eval)

subsection \<open>The update rule\<close>

text \<open>
  C1. The claim is that every step of a produced trajectory satisfies
  \<open>y[i+1] = y[i] + dt * k * y[i] * (M - y[i])\<close>. With \<open>dt = 1\<close> and \<open>Tmax = 3\<close> written as
  ints (and \<open>M = 4\<close>, \<open>k = 0.5\<close>, \<open>y0 = 1.0\<close>) the grid is an integer array, \<open>y\<close> inherits
  its element type, and the cell leaves \<open>y = [1, 2, 4]\<close>: the value \<open>2.5\<close> of the
  right-hand side at \<open>y[0] = 1\<close> is stored as \<open>2\<close>.
\<close>

theorem truncated_recurrence:
  "integrate truncating_params zero_mem =
     Inr (\<lparr>dtype = Int64, data = [0, 1, 2], written = []\<rparr>,
          \<lparr>dtype = Int64, data = [1, 2, 4], written = [0, 1, 2]\<rparr>)
   \<and> [1, 2, 4 :: real] ! (0 + 1) \<noteq>
       [1, 2, 4] ! 0 + val (dt truncating_params) * val (k truncating_params) * [1, 2, 4] ! 0
         * (val (M truncating_params) - [1, 2, 4] ! 0)"
  by (simp add: truncating_params_def run_defs double_eval)

text \<open>
  What holds of every produced trajectory: each value is the right-hand side at the
  preceding value, converted to the element type of the array; on a float array, that
  is, whenever \<open>dt\<close> or \<open>Tmax\<close> is a float, it is the right-hand side itself.
\<close>

lemma stored_recurrence:
  assumes "integrate p junk = Inr (grid, y)" and "i + 1 < length (data y)"
  shows "data y ! (i + 1) =
           cast (dtype y) (data y ! i + val (dt p) * val (k p) * data y ! i * (val (M p) - data y ! i))"
proof -
  from assms(1) have d: "data y = map (iterate p) [0..<grid_len p]"
    and t: "dtype y = result_type (Tmax p) (dt p)"
    by (rule integrate_InrD)+
  with assms(2) have "Suc i < grid_len p"
    by simp
  then show ?thesis
    by (simp add: d t iterate_Suc euler_update_def stored_def)
qed

lemma float_grid_recurrence:
  assumes "integrate p junk = Inr (grid, y)" and "i + 1 < length (data y)"
    and "\<not> (is_int (Tmax p) \<and> is_int (dt p))"
  shows "data y ! (i + 1) =
           data y ! i + val (dt p) * val (k p) * data y ! i * (val (M p) - data y ! i)"
proof -
  from assms(1) have "dtype y = result_type (Tmax p) (dt p)"
    by (rule integrate_InrD)
  with assms(3) have "dtype y = Float64"
    by (simp add: result_type_def)
  with stored_recurrence [OF assms(1,2)] show ?thesis
    by simp
qed

lemma float_grid_recurrence_example:
  "[2, 561 / 256, 161109663 / 67108864 :: real] ! (1 + 1) =
     561 / 256 + val (dt short_params) * val (k short_params) * (561 / 256)
       * (val (M short_params) - 561 / 256)"
proof -
  have len: "(1::nat) + 1 < length (data \<lparr>dtype = Float64,
      data = [2, 561 / 256, 161109663 / 67108864 :: real], written = [0, 1, 2]\<rparr>)"
    by simp
  have fl: "\<not> (is_int (Tmax short_params) \<and> is_int (dt short_params))"
    by (simp add: short_params_def)
  from float_grid_recurrence [OF short_run len fl] show ?thesis
    by simp
qed

subsection \<open>The time grid and the length of the trajectory\<close>





subsection \<open>The initial value\<close>

text \<open>
  C5. The claim is that the first value of a produced trajectory equals \<open>y0\<close> exactly,
  for any parameters. With \<open>dt = 1\<close> and \<open>Tmax = 3\<close> written as ints and \<open>y0 = 2.5\<close> (and
  \<open>M = 4\<close>, \<open>k = 0.5\<close>) the array \<open>y\<close> is an integer array and \<open>y[0] = y0\<close> stores \<open>2\<close>: the
  cell leaves \<open>y = [2, 4, 4]\<close>.
\<close>

theorem truncated_first_value:
  "integrate fractional_start_params zero_mem =
     Inr (\<lparr>dtype = Int64, data = [0, 1, 2], written = []\<rparr>,
          \<lparr>dtype = Int64, data = [2, 4, 4], written = [0, 1, 2]\<rparr>)
   \<and> [2, 4, 4 :: real] ! 0 \<noteq> val (y0 fractional_start_params)"
  by (simp add: fractional_start_params_def run_defs double_eval)

text \<open>
  What holds of every produced trajectory: it is non-empty and its first value is \<open>y0\<close>
  converted to the element type of the array; on a float array it is \<open>y0\<close>.
\<close>

lemma stored_first_value:
  assumes "integrate p junk = Inr (grid, y)"
  shows "data y \<noteq> [] \<and> data y ! 0 = cast (dtype y) (val (y0 p))"
proof -
  from assms have d: "data y = map (iterate p) [0..<grid_len p]" and pos: "0 < grid_len p"
    and t: "dtype y = result_type (Tmax p) (dt p)"
    by (rule integrate_InrD)+
  from pos show ?thesis
    by (simp add: d t iterate_0 stored_def)
qed

lemma float_grid_first_value:
  assumes "integrate p junk = Inr (grid, y)" and "\<not> (is_int (Tmax p) \<and> is_int (dt p))"
  shows "data y \<noteq> [] \<and> data y ! 0 = val (y0 p)"
proof -
  from assms(1) have "dtype y = result_type (Tmax p) (dt p)"
    by (rule integrate_InrD)
  with assms(2) have "dtype y = Float64"
    by (simp add: result_type_def)
  with stored_first_value [OF assms(1)] show ?thesis
    by simp
qed

lemma float_grid_first_value_example:
  "[2, 561 / 256, 161109663 / 67108864 :: real] ! 0 = val (y0 short_params)"
proof -
  have fl: "\<not> (is_int (Tmax short_params) \<and> is_int (dt short_params))"
    by (simp add: short_params_def)
  from float_grid_first_value [OF short_run fl] show ?thesis
    by simp
qed

subsection \<open>Determinism\<close>

text \<open>
  C9. The outcome of the cell (the exception, or the grid and the trajectory) is a function
  of the five parameters: two runs agree whatever the memory behind the placeholder held
  in each.
\<close>

theorem integrate_deterministic:
  "integrate p junk = integrate p junk'"
  by (simp add: integrate_eq)

subsection \<open>The placeholder is overwritten\<close>




subsection \<open>The equilibria\<close>

text \<open>
  C6. The claim is that with \<open>y0 = 0\<close> or \<open>y0 = M\<close> every value of a produced trajectory
  equals \<open>y0\<close>. With \<open>dt = 1\<close> and \<open>Tmax = 3\<close> written as ints and \<open>M = y0 = 2.5\<close> (and
  \<open>k = 0.5\<close>) the array \<open>y\<close> is an integer array and the cell leaves \<open>y = [2, 2, 2]\<close>: no
  value equals \<open>y0\<close>.
\<close>

theorem truncated_equilibrium:
  "val (y0 fractional_capacity_params) = val (M fractional_capacity_params)
   \<and> integrate fractional_capacity_params zero_mem =
       Inr (\<lparr>dtype = Int64, data = [0, 1, 2], written = []\<rparr>,
            \<lparr>dtype = Int64, data = [2, 2, 2], written = [0, 1, 2]\<rparr>)
   \<and> (2::real) \<noteq> val (y0 fractional_capacity_params)"
  by (simp add: fractional_capacity_params_def run_defs double_eval)

text \<open>
  What holds: \<open>0\<close> and \<open>M\<close> are fixed points of the right-hand side, so on a float array a
  trajectory that starts at one of them is constant at \<open>y0\<close>.
\<close>

lemma euler_update_fixed:
  "v = 0 \<or> v = val (M p) \<Longrightarrow> euler_update p v = v"
  by (auto simp: euler_update_def)

lemma float_grid_iterate_Suc:
  assumes "\<not> (is_int (Tmax p) \<and> is_int (dt p))"
  shows "iterate p (Suc n) = euler_update p (iterate p n)"
  using assms by (auto simp: iterate_Suc stored_def result_type_def)

lemma float_grid_iterate_0:
  assumes "\<not> (is_int (Tmax p) \<and> is_int (dt p))"
  shows "iterate p 0 = val (y0 p)"
  using assms by (auto simp: iterate_0 stored_def result_type_def)

lemma float_grid_iterate_fixed:
  assumes "val (y0 p) = 0 \<or> val (y0 p) = val (M p)"
    and "\<not> (is_int (Tmax p) \<and> is_int (dt p))"
  shows "iterate p n = val (y0 p)"
proof (induction n)
  case 0
  from assms(2) show ?case
    by (rule float_grid_iterate_0)
next
  case (Suc n)
  with assms(1) show ?case
    by (simp add: float_grid_iterate_Suc [OF assms(2)] euler_update_fixed)
qed

lemma float_grid_equilibria:
  assumes "val (y0 p) = 0 \<or> val (y0 p) = val (M p)"
    and "\<not> (is_int (Tmax p) \<and> is_int (dt p))"
    and "integrate p junk = Inr (grid, y)"
  shows "\<forall>v \<in> set (data y). v = val (y0 p)"
proof -
  from assms(3) have "data y = map (iterate p) [0..<grid_len p]"
    by (rule integrate_InrD)
  then show ?thesis
    by (auto simp: float_grid_iterate_fixed [OF assms(1,2)])
qed

lemma at_zero_run:
  "integrate at_zero_params zero_mem =
     Inr (\<lparr>dtype = Float64, data = [0, 1 / 8, 1 / 4, 3 / 8, 1 / 2, 5 / 8, 3 / 4, 7 / 8],
           written = []\<rparr>,
          \<lparr>dtype = Float64, data = [0, 0, 0, 0, 0, 0, 0, 0],
           written = [0, 1, 2, 3, 4, 5, 6, 7]\<rparr>)"
  by (simp add: at_zero_params_def run_defs double_eval)

lemma at_capacity_run:
  "integrate at_capacity_params zero_mem =
     Inr (\<lparr>dtype = Float64, data = [0, 1 / 8, 1 / 4], written = []\<rparr>,
          \<lparr>dtype = Float64, data = [100, 100, 100], written = [0, 1, 2]\<rparr>)"
  by (simp add: at_capacity_params_def run_defs double_eval)

lemma float_grid_equilibria_example:
  "list_all (\<lambda>v. v = val (y0 at_zero_params)) [0, 0, 0, 0, 0, 0, 0, 0 :: real]
   \<and> list_all (\<lambda>v. v = val (y0 at_capacity_params)) [100, 100, 100 :: real]"
proof -
  have h0: "val (y0 at_zero_params) = 0 \<or> val (y0 at_zero_params) = val (M at_zero_params)"
    and f0: "\<not> (is_int (Tmax at_zero_params) \<and> is_int (dt at_zero_params))"
    by (simp_all add: at_zero_params_def)
  have hM: "val (y0 at_capacity_params) = 0
      \<or> val (y0 at_capacity_params) = val (M at_capacity_params)"
    and fM: "\<not> (is_int (Tmax at_capacity_params) \<and> is_int (dt at_capacity_params))"
    by (simp_all add: at_capacity_params_def)
  from float_grid_equilibria [OF h0 f0 at_zero_run]
    float_grid_equilibria [OF hM fM at_capacity_run]
  show ?thesis
    by (simp add: list_all_iff)
qed

subsection \<open>Monotone runs\<close>

text \<open>
  A sequence whose consecutive members are related by a transitive relation is sorted by
  it. Below the capacity, with \<open>dt * k * M \<le> 1\<close>, an update moves a value up and keeps it
  below \<open>M\<close>.
\<close>

lemma chain_sorted_wrt:
  assumes step: "\<And>n. R (f n) (f (Suc n))"
    and trans: "\<And>a b c. R a b \<Longrightarrow> R b c \<Longrightarrow> R a c"
  shows "sorted_wrt R (map f [0..<n])"
proof -
  have "R (f i) (f j)" if "i < j" for i j
    using that
  proof (induction j)
    case 0
    then show ?case by simp
  next
    case (Suc j)
    show ?case
    proof (cases "i = j")
      case True
      then show ?thesis by (simp add: step)
    next
      case False
      with Suc.prems have "i < j" by simp
      then have "R (f i) (f j)" by (rule Suc.IH)
      then show ?thesis using step by (rule trans)
    qed
  qed
  then show ?thesis
    by (simp add: sorted_wrt_iff_nth_less)
qed

lemma update_below_capacity:
  assumes "0 < val (dt p) * val (k p)" and "val (dt p) * val (k p) * val (M p) \<le> 1"
    and "0 < v" and "v < val (M p)"
  shows "v < euler_update p v" and "euler_update p v < val (M p)"
proof -
  let ?c = "val (dt p) * val (k p)"
  from assms have "0 < ?c * v * (val (M p) - v)"
    by simp
  then show "v < euler_update p v"
    by (simp add: euler_update_def)
  from assms(4,1) have "?c * v < ?c * val (M p)"
    by (rule mult_strict_left_mono)
  with assms(2) have "?c * v < 1"
    by linarith
  with assms(4) have "0 < (val (M p) - v) * (1 - ?c * v)"
    by (intro mult_pos_pos) simp_all
  moreover have "val (M p) - euler_update p v = (val (M p) - v) * (1 - ?c * v)"
    by (simp add: euler_update_def algebra_simps)
  ultimately show "euler_update p v < val (M p)"
    by linarith
qed

lemma iterate_below_capacity:
  assumes "\<not> (is_int (Tmax p) \<and> is_int (dt p))"
    and "0 < val (dt p) * val (k p)" and "val (dt p) * val (k p) * val (M p) \<le> 1"
    and "0 < val (y0 p)" and "val (y0 p) < val (M p)"
  shows "0 < iterate p n \<and> iterate p n < val (M p)"
proof (induction n)
  case 0
  from assms(4,5) show ?case
    by (simp add: float_grid_iterate_0 [OF assms(1)])
next
  case (Suc n)
  then have pos: "0 < iterate p n" and below: "iterate p n < val (M p)"
    by simp_all
  from update_below_capacity [OF assms(2,3) pos below] pos show ?case
    by (simp add: float_grid_iterate_Suc [OF assms(1)])
qed

lemma iterate_increasing:
  assumes "\<not> (is_int (Tmax p) \<and> is_int (dt p))"
    and "0 < val (dt p) * val (k p)" and "val (dt p) * val (k p) * val (M p) \<le> 1"
    and "0 < val (y0 p)" and "val (y0 p) < val (M p)"
  shows "iterate p n < iterate p (Suc n)"
proof -
  from iterate_below_capacity [OF assms, of n]
  have pos: "0 < iterate p n" and below: "iterate p n < val (M p)"
    by simp_all
  from update_below_capacity(1) [OF assms(2,3) pos below] show ?thesis
    by (simp add: float_grid_iterate_Suc [OF assms(1)])
qed

text \<open>
  C7. With the parameter block of the notebook (\<open>k = 0.01\<close>, \<open>M = 100\<close>, \<open>dt = 0.1\<close>,
  \<open>Tmax = 10\<close>, \<open>y0 = 2.0\<close>) the cell produces a trajectory of exactly 100 points, whose first
  value is 2 and which is strictly increasing over all indices.
\<close>

theorem notebook_trajectory:
  "\<exists>grid y. integrate notebook_params junk = Inr (grid, y)
     \<and> length (data y) = 100 \<and> data y ! 0 = 2 \<and> sorted_wrt (<) (data y)"
proof -
  let ?p = notebook_params
  have n: "grid_len ?p = 100"
    by (simp add: grid_len_def notebook_params_def literals double_eval)
  have fl: "\<not> (is_int (Tmax ?p) \<and> is_int (dt ?p))"
    by (simp add: notebook_params_def)
  have nz: "val (dt ?p) \<noteq> 0"
    by (simp add: notebook_params_def literals)
  let ?y = "\<lparr>dtype = result_type (Tmax ?p) (dt ?p),
             data = map (iterate ?p) [0..<100], written = [0..<100]\<rparr>"
  from nz have r: "integrate ?p junk = Inr (grid_of ?p, ?y)"
    by (simp add: integrate_eq n)
  have a: "length (data ?y) = 100"
    by simp
  have "map (iterate ?p) [0..<100] ! 0 = iterate ?p 0"
    by (simp only: nth_map_upt) simp
  then have b: "data ?y ! 0 = 2"
    by (simp add: float_grid_iterate_0 [OF fl]) (simp add: notebook_params_def)
  have c1: "0 < val (dt ?p) * val (k ?p)"
    and c2: "val (dt ?p) * val (k ?p) * val (M ?p) \<le> 1"
    and c3: "0 < val (y0 ?p)" and c4: "val (y0 ?p) < val (M ?p)"
    by (simp_all add: notebook_params_def literals)
  have "sorted_wrt (<) (map (iterate ?p) [0..<100])"
    by (rule chain_sorted_wrt) (rule iterate_increasing [OF fl c1 c2 c3 c4], rule less_trans)
  then have c: "sorted_wrt (<) (data ?y)"
    by simp
  from r a b c show ?thesis
    by (intro exI [of _ ?y] exI [of _ "grid_of ?p"] conjI)
qed

text \<open>
  Above the capacity, with \<open>dt * k * v < 1\<close>, an update moves a value down and keeps it
  above \<open>M\<close>.
\<close>

lemma update_above_capacity:
  assumes "0 < val (dt p) * val (k p)" and "val (dt p) * val (k p) * v < 1"
    and "val (M p) < v" and "0 < v"
  shows "val (M p) < euler_update p v" and "euler_update p v < v"
proof -
  let ?c = "val (dt p) * val (k p)"
  from assms(1,4) have "0 < ?c * v"
    by (rule mult_pos_pos)
  with assms(3) have "?c * v * (val (M p) - v) < 0"
    by (intro mult_pos_neg) simp_all
  then show "euler_update p v < v"
    by (simp add: euler_update_def)
  from assms(2,3) have "0 < (v - val (M p)) * (1 - ?c * v)"
    by (intro mult_pos_pos) simp_all
  moreover have "euler_update p v - val (M p) = (v - val (M p)) * (1 - ?c * v)"
    by (simp add: euler_update_def algebra_simps)
  ultimately show "val (M p) < euler_update p v"
    by linarith
qed

lemma iterate_above_capacity:
  assumes "\<not> (is_int (Tmax p) \<and> is_int (dt p))"
    and "0 < val (dt p) * val (k p)" and "val (dt p) * val (k p) * val (y0 p) < 1"
    and "0 \<le> val (M p)" and "val (M p) < val (y0 p)"
  shows "val (M p) < iterate p n \<and> iterate p n \<le> val (y0 p)"
proof (induction n)
  case 0
  from assms(5) show ?case
    by (simp add: float_grid_iterate_0 [OF assms(1)])
next
  case (Suc n)
  then have above: "val (M p) < iterate p n" and le: "iterate p n \<le> val (y0 p)"
    by simp_all
  from above assms(4) have pos: "0 < iterate p n"
    by linarith
  from le assms(2) have "val (dt p) * val (k p) * iterate p n \<le> val (dt p) * val (k p) * val (y0 p)"
    by (intro mult_left_mono) simp_all
  with assms(3) have small: "val (dt p) * val (k p) * iterate p n < 1"
    by linarith
  from update_above_capacity [OF assms(2) small above pos] le show ?case
    by (simp add: float_grid_iterate_Suc [OF assms(1)])
qed

lemma iterate_decreasing:
  assumes "\<not> (is_int (Tmax p) \<and> is_int (dt p))"
    and "0 < val (dt p) * val (k p)" and "val (dt p) * val (k p) * val (y0 p) < 1"
    and "0 \<le> val (M p)" and "val (M p) < val (y0 p)"
  shows "iterate p (Suc n) < iterate p n"
proof -
  from iterate_above_capacity [OF assms, of n]
  have above: "val (M p) < iterate p n" and le: "iterate p n \<le> val (y0 p)"
    by simp_all
  from above assms(4) have pos: "0 < iterate p n"
    by linarith
  from le assms(2) have "val (dt p) * val (k p) * iterate p n \<le> val (dt p) * val (k p) * val (y0 p)"
    by (intro mult_left_mono) simp_all
  with assms(3) have small: "val (dt p) * val (k p) * iterate p n < 1"
    by linarith
  from update_above_capacity(2) [OF assms(2) small above pos] show ?thesis
    by (simp add: float_grid_iterate_Suc [OF assms(1)])
qed

text \<open>
  C8. With \<open>y0 = 150\<close>, \<open>M = 100\<close>, \<open>k = 0.01\<close>, \<open>dt = 0.1\<close>, \<open>Tmax = 5\<close> the cell produces a
  trajectory (of 50 points) that is strictly decreasing over all indices and whose every
  value is above 100.
\<close>

theorem above_capacity_trajectory:
  "\<exists>grid y. integrate above_capacity_params junk = Inr (grid, y)
     \<and> length (data y) = 50
     \<and> sorted_wrt (\<lambda>a b. b < a) (data y)
     \<and> list_all (\<lambda>v. 100 < v) (data y)"
proof -
  let ?p = above_capacity_params
  have n: "grid_len ?p = 50"
    by (simp add: grid_len_def above_capacity_params_def literals double_eval)
  have fl: "\<not> (is_int (Tmax ?p) \<and> is_int (dt ?p))"
    by (simp add: above_capacity_params_def)
  have nz: "val (dt ?p) \<noteq> 0"
    by (simp add: above_capacity_params_def literals)
  let ?y = "\<lparr>dtype = result_type (Tmax ?p) (dt ?p),
             data = map (iterate ?p) [0..<50], written = [0..<50]\<rparr>"
  from nz have r: "integrate ?p junk = Inr (grid_of ?p, ?y)"
    by (simp add: integrate_eq n)
  have a: "length (data ?y) = 50"
    by simp
  have c1: "0 < val (dt ?p) * val (k ?p)" and c2: "val (dt ?p) * val (k ?p) * val (y0 ?p) < 1"
    and c3: "0 \<le> val (M ?p)" and c4: "val (M ?p) < val (y0 ?p)"
    by (simp_all add: above_capacity_params_def literals)
  have "sorted_wrt (\<lambda>a b. b < a) (map (iterate ?p) [0..<50])"
    by (rule chain_sorted_wrt) (rule iterate_decreasing [OF fl c1 c2 c3 c4], rule less_trans)
  then have b: "sorted_wrt (\<lambda>a b. b < a) (data ?y)"
    by simp
  have "100 < iterate ?p i" for i
    using iterate_above_capacity [OF fl c1 c2 c3 c4, of i]
    by (simp add: above_capacity_params_def)
  then have c: "list_all (\<lambda>v. 100 < v) (data ?y)"
    by (simp add: list_all_iff)
  from r a b c show ?thesis
    by (intro exI [of _ ?y] exI [of _ "grid_of ?p"] conjI)
qed

subsection \<open>Degenerate parameters\<close>




text \<open>
  C4, as stated, fails: with \<open>Tmax = 0\<close> and \<open>dt = 0.1\<close> the cell returns no trajectory; it
  raises the index error.
\<close>

theorem zero_horizon_counterexample:
  "val (Tmax zero_horizon_params) \<le> 0 \<and> 0 < val (dt zero_horizon_params)
   \<and> integrate zero_horizon_params zero_mem = Inl IndexError"
  by (simp add: run_defs zero_horizon_params_def literals double_eval)

text \<open>
  C4, amended. For \<open>Tmax \<le> 0\<close> and \<open>dt > 0\<close> the time grid is empty, so the assignment
  \<open>y[0] = y0\<close> raises the index error: no integration step is made and no trajectory is
  returned.
\<close>

theorem nonpositive_horizon:
  assumes "val (Tmax p) \<le> 0" and "0 < val (dt p)"
  shows "arange (Tmax p) (dt p) =
           Inr \<lparr>dtype = result_type (Tmax p) (dt p), data = [], written = []\<rparr>
         \<and> integrate p junk = Inl IndexError"
proof -
  from assms have "\<not> 0 < val (Tmax p) / val (dt p)"
    by (simp add: zero_less_divide_iff)
  then have "grid_len p = 0"
    by (simp add: grid_len_pos_iff [symmetric])
  with assms(2) show ?thesis
    by (simp add: integrate_eq arange_eq grid_of_def)
qed

theorem nonpositive_horizon_witness:
  "val (Tmax negative_horizon_params) \<le> 0 \<and> 0 < val (dt negative_horizon_params)
   \<and> arange (Tmax negative_horizon_params) (dt negative_horizon_params) =
       Inr \<lparr>dtype = Float64, data = [], written = []\<rparr>
   \<and> integrate negative_horizon_params zero_mem = Inl IndexError"
proof -
  have h1: "val (Tmax negative_horizon_params) \<le> 0"
    and h2: "0 < val (dt negative_horizon_params)"
    by (simp_all add: negative_horizon_params_def literals)
  have t: "result_type (Tmax negative_horizon_params) (dt negative_horizon_params) = Float64"
    by (simp add: negative_horizon_params_def result_type_def)
  from nonpositive_horizon [OF h1 h2, of zero_mem] h1 h2 show ?thesis
    by (simp add: t)
qed

end
